theory Spec2Isabelle
  imports Main "HOL-Library.Sublist" "HOL-Library.AList"
begin

section \<open>Strings and paths\<close>

text \<open>
  \<open>std::string\<close> is a byte string, here \<open>string\<close>. \<open>std::filesystem::path\<close> on a POSIX
  host is its native text; \<open>path::string()\<close> and the conversions from \<open>std::string\<close> and
  string literals are the identity.
\<close>

type_synonym path = string

text \<open>\<open>s.find(needle)\<close>: the index of the first occurrence; \<open>None\<close> is \<open>npos\<close>.\<close>

fun str_find :: "string \<Rightarrow> string \<Rightarrow> nat option" where
  "str_find [] needle = (if needle = [] then Some 0 else None)"
| "str_find (c # cs) needle =
     (if prefix needle (c # cs) then Some 0 else map_option Suc (str_find cs needle))"

text \<open>\<open>s.find_last_of(ch)\<close>: the index of the last occurrence; \<open>None\<close> is \<open>npos\<close>.\<close>

fun find_last_of :: "string \<Rightarrow> char \<Rightarrow> nat option" where
  "find_last_of [] ch = None"
| "find_last_of (c # cs) ch =
     (case find_last_of cs ch of
        Some i \<Rightarrow> Some (Suc i)
      | None \<Rightarrow> (if c = ch then Some 0 else None))"

text \<open>
  \<open>s.substr(s.find_last_of(ch) + 1)\<close>. When the character is absent the index is
  \<open>npos\<close>, the largest \<open>size_t\<close>, and \<open>npos + 1\<close> wraps to \<open>0\<close>: the whole string.
  Otherwise the start index is at most \<open>s.size()\<close>, so \<open>substr\<close> does not throw.
\<close>

definition substr_after_last :: "string \<Rightarrow> char \<Rightarrow> string" where
  "substr_after_last s ch =
     (case find_last_of s ch of
        None \<Rightarrow> drop 0 s
      | Some i \<Rightarrow> drop (i + 1) s)"

text \<open>
  \<open>lhs / rhs\<close> on paths (POSIX): an absolute right operand replaces the left one;
  otherwise a separator is added when the left operand has a filename (is not empty and
  does not end with a separator), and then the right operand's text.
\<close>

definition path_filename :: "path \<Rightarrow> path" where
  "path_filename p = substr_after_last p CHR ''/''"

definition path_append :: "path \<Rightarrow> path \<Rightarrow> path" where
  "path_append lhs rhs =
     (if rhs \<noteq> [] \<and> hd rhs = CHR ''/'' then rhs
      else if path_filename lhs \<noteq> [] then lhs @ ''/'' @ rhs
      else lhs @ rhs)"

section \<open>Outcomes\<close>

text \<open>
  A call returns, or leaves by a C++ exception (with its \<open>what()\<close> text), or dereferences
  a null pointer. \<open>hyprload::Result<T, std::string>\<close> is an ordinary returned value.
\<close>

datatype 'a outcome = Returns 'a | Throws string | NullDeref

datatype 'a result = ok 'a | err string

fun bind_outcome :: "'a outcome \<Rightarrow> ('a \<Rightarrow> 'b outcome) \<Rightarrow> 'b outcome" where
  "bind_outcome (Returns x) f = f x"
| "bind_outcome (Throws e) f = Throws e"
| "bind_outcome NullDeref f = NullDeref"

section \<open>TOML values\<close>

text \<open>
  A \<open>toml::table\<close> is listed in its iteration order; \<open>contains\<close>, \<open>operator[]\<close> and
  \<open>get\<close> look a key up. Floating-point and date-time values keep their source text: the
  program only asks a node for its kind.
\<close>

datatype toml_node =
    TTable "(string \<times> toml_node) list"
  | TArray "toml_node list"
  | TString string
  | TInteger int
  | TBoolean bool
  | TFloat string
  | TDateTime string

type_synonym toml_table = "(string \<times> toml_node) list"

definition contains :: "toml_table \<Rightarrow> string \<Rightarrow> bool" where
  "contains t k = (map_of t k \<noteq> None)"

definition node_at :: "toml_table \<Rightarrow> string \<Rightarrow> toml_node option" where
  "node_at t k = map_of t k"

fun is_string :: "toml_node option \<Rightarrow> bool" where
  "is_string (Some (TString s)) = True"
| "is_string _ = False"

fun is_array :: "toml_node option \<Rightarrow> bool" where
  "is_array (Some (TArray vs)) = True"
| "is_array _ = False"

fun is_table :: "toml_node option \<Rightarrow> bool" where
  "is_table (Some (TTable t)) = True"
| "is_table _ = False"

text \<open>
  \<open>node.as_string()->get()\<close>: \<open>as_string()\<close> is a null pointer unless the node is a
  string, and the call through it is then a null dereference.
\<close>

fun as_string_get :: "toml_node option \<Rightarrow> string outcome" where
  "as_string_get (Some (TString s)) = Returns s"
| "as_string_get _ = NullDeref"

text \<open>
  The two \<open>for_each\<close> loops over an array: every element must be a string, and is
  pushed onto the vector; the first other element throws.
\<close>

fun push_strings :: "string \<Rightarrow> toml_node list \<Rightarrow> string list \<Rightarrow> string list outcome" where
  "push_strings msg [] acc = Returns acc"
| "push_strings msg (v # vs) acc =
     (if \<not> is_string (Some v) then Throws msg
      else bind_outcome (as_string_get (Some v)) (\<lambda>s. push_strings msg vs (acc @ [s])))"

section \<open>Manifest model\<close>

record PluginManifest =
  m_sName :: string
  m_sAuthors :: "string list"
  m_sVersion :: string
  m_sDescription :: string
  m_pBinaryOutputPath :: path
  m_sBuildSteps :: "string list"

record HyprloadManifest =
  m_vPlugins :: "PluginManifest list"

text \<open>
  The constructor \<open>PluginManifest::PluginManifest(name, manifest)\<close>, block by block:
  the authors (lines 110 to 123), the version (125 to 129), the description (131 to 135)
  and the build table with the output path and the build steps (137 to 158).
\<close>

definition parse_authors :: "toml_table \<Rightarrow> string list outcome" where
  "parse_authors manifest =
     (if contains manifest ''authors'' \<and> is_array (node_at manifest ''authors'') then
        (case node_at manifest ''authors'' of
           Some (TArray vs) \<Rightarrow> push_strings ''Author must be a string'' vs []
         | _ \<Rightarrow> NullDeref)
      else if contains manifest ''author'' then
        bind_outcome (as_string_get (node_at manifest ''author'')) (\<lambda>s. Returns [s])
      else Returns [])"

definition parse_version :: "toml_table \<Rightarrow> string outcome" where
  "parse_version manifest =
     (if contains manifest ''version'' then as_string_get (node_at manifest ''version'')
      else Returns ''0.0.0'')"

definition parse_description :: "toml_table \<Rightarrow> string outcome" where
  "parse_description manifest =
     (if contains manifest ''description'' then as_string_get (node_at manifest ''description'')
      else Returns ''No description provided'')"

definition parse_build :: "string \<Rightarrow> toml_table \<Rightarrow> (path \<times> string list) outcome" where
  "parse_build name manifest =
     (if contains manifest ''build'' \<and> is_table (node_at manifest ''build'') then
        (case node_at manifest ''build'' of
           Some (TTable build) \<Rightarrow>
             bind_outcome
               (if contains build ''output'' \<and> is_string (node_at build ''output'') then
                  as_string_get (node_at build ''output'')
                else Returns (name @ ''.so''))
               (\<lambda>binaryOutputPath.
             if contains build ''steps'' \<and> is_array (node_at build ''steps'') then
               (case node_at build ''steps'' of
                  Some (TArray vs) \<Rightarrow>
                    bind_outcome (push_strings ''Build step must be a string'' vs [])
                      (\<lambda>buildSteps. Returns (binaryOutputPath, buildSteps))
                | _ \<Rightarrow> NullDeref)
             else Throws ''Plugin must have build steps'')
         | _ \<Rightarrow> NullDeref)
      else Throws ''Plugin must have a build table'')"

definition PluginManifest_new :: "string \<Rightarrow> toml_table \<Rightarrow> PluginManifest outcome" where
  "PluginManifest_new name manifest =
     bind_outcome (parse_authors manifest) (\<lambda>authors.
     bind_outcome (parse_version manifest) (\<lambda>version.
     bind_outcome (parse_description manifest) (\<lambda>description.
     bind_outcome (parse_build name manifest) (\<lambda>(binaryOutputPath, buildSteps).
     Returns
       \<lparr>m_sName = name, m_sAuthors = authors, m_sVersion = version,
        m_sDescription = description, m_pBinaryOutputPath = binaryOutputPath,
        m_sBuildSteps = buildSteps\<rparr>))))"

text \<open>
  The constructor \<open>HyprloadManifest::HyprloadManifest(manifest)\<close>: one plugin manifest per
  top-level entry whose value is a table, in iteration order; other entries are skipped,
  and an exception of a plugin's constructor leaves the loop.
\<close>

fun emplace_plugins :: "toml_table \<Rightarrow> PluginManifest list \<Rightarrow> PluginManifest list outcome" where
  "emplace_plugins [] plugins = Returns plugins"
| "emplace_plugins ((key, v) # rest) plugins =
     (if is_table (Some v) then
        (case v of
           TTable table \<Rightarrow>
             bind_outcome (PluginManifest_new key table)
               (\<lambda>p. emplace_plugins rest (plugins @ [p]))
         | _ \<Rightarrow> NullDeref)
      else emplace_plugins rest plugins)"

definition HyprloadManifest_new :: "toml_table \<Rightarrow> HyprloadManifest outcome" where
  "HyprloadManifest_new manifest =
     bind_outcome (emplace_plugins manifest []) (\<lambda>ps. Returns \<lparr>m_vPlugins = ps\<rparr>)"

section \<open>The environment\<close>

text \<open>
  The path discovery functions \<open>hyprload::getPluginsPath\<close>,
  \<open>hyprload::getPluginBinariesPath\<close> and \<open>hyprload::getHyprlandHeadersPath\<close> are declared
  in \<open>Hyprload.hpp\<close> and not part of this source file: their results are parameters.
\<close>

record config =
  getPluginsPath :: path
  getPluginBinariesPath :: path
  getHyprlandHeadersPath :: "path option"

text \<open>
  The operating system and the libraries that reach it are parameters too, acting on a
  state \<open>'w\<close> of the outside world (the file system, the network, the repositories):
  \<^item> \<open>fs_exists\<close>, \<open>fs_remove\<close>, \<open>fs_copy\<close>: \<open>std::filesystem::exists\<close>, \<open>remove\<close>
    and \<open>copy\<close>, which throw \<open>filesystem_error\<close> when the system call fails;
  \<^item> \<open>toml_parse\<close>: \<open>toml::parse\<close> at its string argument, throwing on a parse error;
  \<^item> \<open>std_system\<close>: \<open>std::system\<close>, the status of the command;
  \<^item> \<open>popen_read\<close>: \<open>popen\<close>, the \<open>fgets\<close> loop up to end of file, and \<open>pclose\<close>:
    \<open>None\<close> when the pipe could not be opened, else the accumulated text and the status.
\<close>

record 'w os =
  fs_exists :: "path \<Rightarrow> 'w \<Rightarrow> bool outcome"
  fs_remove :: "path \<Rightarrow> 'w \<Rightarrow> 'w outcome"
  fs_copy :: "path \<Rightarrow> path \<Rightarrow> 'w \<Rightarrow> 'w outcome"
  toml_parse :: "string \<Rightarrow> 'w \<Rightarrow> toml_table outcome"
  std_system :: "string \<Rightarrow> 'w \<Rightarrow> int \<times> 'w"
  popen_read :: "string \<Rightarrow> 'w \<Rightarrow> (string \<times> int) option \<times> 'w"

text \<open>Statements in sequence: the world is passed on, an exception ends the sequence.\<close>

type_synonym ('w, 'a) act = "'w \<Rightarrow> 'a outcome \<times> 'w"

definition ret :: "'a \<Rightarrow> ('w, 'a) act" where
  "ret x w = (Returns x, w)"

definition bind_act :: "('w, 'a) act \<Rightarrow> ('a \<Rightarrow> ('w, 'b) act) \<Rightarrow> ('w, 'b) act" where
  "bind_act m f w =
     (case m w of
        (Returns x, w') \<Rightarrow> f x w'
      | (Throws e, w') \<Rightarrow> (Throws e, w')
      | (NullDeref, w') \<Rightarrow> (NullDeref, w'))"

definition reading :: "('w \<Rightarrow> 'a outcome) \<Rightarrow> ('w, 'a) act" where
  "reading r w = (r w, w)"

definition updating :: "('w \<Rightarrow> 'w outcome) \<Rightarrow> ('w, unit) act" where
  "updating u w =
     (case u w of
        Returns w' \<Rightarrow> (Returns (), w')
      | Throws e \<Rightarrow> (Throws e, w)
      | NullDeref \<Rightarrow> (NullDeref, w))"

section \<open>Command executor and manifest loading\<close>

definition executeCommand :: "'w os \<Rightarrow> string \<Rightarrow> 'w \<Rightarrow> (int \<times> string) \<times> 'w" where
  "executeCommand os command w =
     (case popen_read os command w of
        (None, w') \<Rightarrow> ((- 1, ''Failed to execute command''), w')
      | (Some (result, exit), w') \<Rightarrow> ((exit, result), w'))"

definition getHyprlandManifest :: "'w os \<Rightarrow> path \<Rightarrow> 'w \<Rightarrow> HyprloadManifest result outcome" where
  "getHyprlandManifest os sourcePath w =
     (let manifestPath = path_append sourcePath ''hyprload.toml'' in
      bind_outcome (fs_exists os manifestPath w) (\<lambda>present.
      if \<not> present then Returns (err ''Source does not have a hyprload.toml manifest'')
      else
        (case toml_parse os manifestPath w of
           Throws e \<Rightarrow> Returns (err (''Failed to parse source manifest: '' @ e))
         | NullDeref \<Rightarrow> NullDeref
         | Returns manifest \<Rightarrow>
             bind_outcome (HyprloadManifest_new manifest) (\<lambda>m. Returns (ok m)))))"

text \<open>The search loop of \<open>getPluginManifest\<close>: the first plugin of that name.\<close>

fun find_plugin :: "PluginManifest list \<Rightarrow> string \<Rightarrow> PluginManifest option" where
  "find_plugin [] name = None"
| "find_plugin (plugin # rest) name =
     (if m_sName plugin = name then Some plugin else find_plugin rest name)"

definition getPluginManifest :: "'w os \<Rightarrow> path \<Rightarrow> string \<Rightarrow> 'w \<Rightarrow> PluginManifest result outcome" where
  "getPluginManifest os sourcePath name w =
     bind_outcome (getHyprlandManifest os sourcePath w) (\<lambda>hyprloadManifest.
     case hyprloadManifest of
       err e \<Rightarrow> Returns (err e)
     | ok hm \<Rightarrow>
         (case find_plugin (m_vPlugins hm) name of
            None \<Rightarrow> Returns (err (''Plugin does not have a manifest for '' @ name))
          | Some pluginManifest \<Rightarrow> Returns (ok pluginManifest)))"

section \<open>Build orchestrator\<close>

definition build_command :: "path \<Rightarrow> path \<Rightarrow> string list \<Rightarrow> string" where
  "build_command headers sourcePath steps =
     foldl (\<lambda>buildSteps step. buildSteps @ step @ '' && '')
       (''export HYPRLAND_HEADERS='' @ headers @ '' && cd '' @ sourcePath @ '' && '') steps
     @ ''cd -''"

definition buildPlugin :: "config \<Rightarrow> 'w os \<Rightarrow> path \<Rightarrow> string \<Rightarrow> ('w, unit result) act" where
  "buildPlugin c os sourcePath name =
     (let hyprlandHeadersPath = getHyprlandHeadersPath c in
      bind_act (reading (getPluginManifest os sourcePath name)) (\<lambda>pluginManifestResult.
      case pluginManifestResult of
        err e \<Rightarrow> ret (err e)
      | ok pluginManifest \<Rightarrow>
          (case hyprlandHeadersPath of
             None \<Rightarrow> ret (err
               ''Could not find hyprland headers. Refer to https://github.com/Duckonaut/hyprload#Setup'')
           | Some headers \<Rightarrow>
               (\<lambda>w. case executeCommand os
                           (build_command headers sourcePath (m_sBuildSteps pluginManifest)) w of
                      ((exit, output), w') \<Rightarrow>
                        if exit \<noteq> 0 then (Returns (err (''Failed to build plugin: '' @ output)), w')
                        else (Returns (ok ()), w')))))"

section \<open>Plugin sources\<close>

datatype PluginSource =
    GitPluginSource (m_sUrl: string) (m_sBranch: string) (m_pSourcePath: path)
  | LocalPluginSource (m_pSourcePath: path)

text \<open>The constructor \<open>GitPluginSource::GitPluginSource(url, branch)\<close>.\<close>

definition GitPluginSource_new :: "config \<Rightarrow> string \<Rightarrow> string \<Rightarrow> PluginSource" where
  "GitPluginSource_new c url branch =
     (let sUrl = (if str_find url ''https://'' = Some 0 then url
                  else if str_find url ''git@'' = Some 0 then url
                  else ''https://github.com/'' @ url @ ''.git'')
      in GitPluginSource sUrl branch
           (path_append (path_append (getPluginsPath c) ''src'')
              (substr_after_last sUrl CHR ''/'')))"

definition clone_command :: "PluginSource \<Rightarrow> string" where
  "clone_command src =
     ''git clone '' @ m_sUrl src @ '' '' @ m_pSourcePath src @ '' --branch '' @ m_sBranch src
       @ '' --depth 1''"

fun installSource :: "'w os \<Rightarrow> PluginSource \<Rightarrow> ('w, unit result) act" where
  "installSource os (GitPluginSource url branch sourcePath) =
     (\<lambda>w. case std_system os (clone_command (GitPluginSource url branch sourcePath)) w of
            (status, w') \<Rightarrow>
              if status \<noteq> 0 then (Returns (err ''Failed to clone plugin source''), w')
              else (Returns (ok ()), w'))"
| "installSource os (LocalPluginSource sourcePath) = ret (ok ())"

fun isSourceAvailable :: "'w os \<Rightarrow> PluginSource \<Rightarrow> 'w \<Rightarrow> bool outcome" where
  "isSourceAvailable os (GitPluginSource url branch sourcePath) =
     fs_exists os (path_append sourcePath ''.git'')"
| "isSourceAvailable os (LocalPluginSource sourcePath) = fs_exists os sourcePath"

fun isUpToDate :: "'w os \<Rightarrow> PluginSource \<Rightarrow> 'w \<Rightarrow> bool \<times> 'w" where
  "isUpToDate os (GitPluginSource url branch sourcePath) =
     (\<lambda>w. case std_system os (''git -C '' @ sourcePath @ '' remote update'') w of
            (status, w1) \<Rightarrow>
              if status \<noteq> 0 then (False, w1)
              else
                (case executeCommand os (''git -C '' @ sourcePath @ '' status -uno'') w1 of
                   ((exit, output), w2) \<Rightarrow>
                     (exit \<noteq> 0 \<and> str_find output ''ahead'' = None, w2)))"
| "isUpToDate os (LocalPluginSource sourcePath) = (\<lambda>w. (False, w))"

fun build :: "config \<Rightarrow> 'w os \<Rightarrow> PluginSource \<Rightarrow> string \<Rightarrow> ('w, unit result) act" where
  "build c os (GitPluginSource url branch sourcePath) name = buildPlugin c os sourcePath name"
| "build c os (LocalPluginSource sourcePath) name = buildPlugin c os sourcePath name"

text \<open>
  Both \<open>install\<close> member functions end with the same statements, from the call of
  \<open>build(name)\<close> to the copy of the artifact (lines 264 to 292 and 329 to 357).
\<close>

definition build_and_publish :: "config \<Rightarrow> 'w os \<Rightarrow> PluginSource \<Rightarrow> string \<Rightarrow> ('w, unit result) act" where
  "build_and_publish c os src name =
     bind_act (build c os src name) (\<lambda>result.
     case result of
       err e \<Rightarrow> ret (err e)
     | ok u \<Rightarrow>
     bind_act (reading (getPluginManifest os (m_pSourcePath src) name)) (\<lambda>pluginManifestResult.
     case pluginManifestResult of
       err e \<Rightarrow> ret (err e)
     | ok pluginManifest \<Rightarrow>
     (let outputBinary = path_append (m_pSourcePath src) (m_pBinaryOutputPath pluginManifest) in
     bind_act (reading (fs_exists os outputBinary)) (\<lambda>built.
     if \<not> built then ret (err ''Plugin binary does not exist'')
     else
     (let targetPath = path_append (getPluginBinariesPath c) (path_filename outputBinary) in
     bind_act (reading (fs_exists os targetPath)) (\<lambda>stale.
     bind_act (if stale then updating (fs_remove os targetPath) else ret ()) (\<lambda>u1.
     bind_act (updating (fs_copy os outputBinary targetPath)) (\<lambda>u2.
     ret (ok ())))))))))"

fun install :: "config \<Rightarrow> 'w os \<Rightarrow> PluginSource \<Rightarrow> string \<Rightarrow> ('w, unit result) act" where
  "install c os (GitPluginSource url branch sourcePath) name =
     bind_act (reading (isSourceAvailable os (GitPluginSource url branch sourcePath)))
       (\<lambda>available.
          if \<not> available then installSource os (GitPluginSource url branch sourcePath)
          else build_and_publish c os (GitPluginSource url branch sourcePath) name)"
| "install c os (LocalPluginSource sourcePath) name =
     bind_act (reading (isSourceAvailable os (LocalPluginSource sourcePath)))
       (\<lambda>available.
          if \<not> available then ret (err (''Source for '' @ name @ '' does not exist''))
          else build_and_publish c os (LocalPluginSource sourcePath) name)"

fun update :: "config \<Rightarrow> 'w os \<Rightarrow> PluginSource \<Rightarrow> string \<Rightarrow> ('w, unit result) act" where
  "update c os (GitPluginSource url branch sourcePath) name =
     (\<lambda>w. case std_system os (''git -C '' @ sourcePath @ '' pull'') w of
            (status, w') \<Rightarrow>
              if status \<noteq> 0 then (Returns (err ''Failed to update plugin source''), w')
              else install c os (GitPluginSource url branch sourcePath) name w')"
| "update c os (LocalPluginSource sourcePath) name =
     install c os (LocalPluginSource sourcePath) name"

section \<open>Plugin requirements\<close>

record PluginRequirement =
  m_sReqName :: string
  m_pSource :: PluginSource
  m_pBinaryPath :: path

text \<open>The constructor \<open>PluginRequirement::PluginRequirement(plugin)\<close>.\<close>

definition PluginRequirement_new :: "config \<Rightarrow> toml_table \<Rightarrow> PluginRequirement outcome" where
  "PluginRequirement_new c plugin =
     bind_outcome
       (if contains plugin ''git'' \<and> is_string (node_at plugin ''git'') then
          bind_outcome (as_string_get (node_at plugin ''git'')) (\<lambda>source.
          bind_outcome
            (if contains plugin ''branch'' \<and> is_string (node_at plugin ''branch'') then
               as_string_get (node_at plugin ''branch'')
             else Returns ''main'')
            (\<lambda>branch. Returns (source, GitPluginSource_new c source branch)))
        else if contains plugin ''local'' \<and> is_string (node_at plugin ''local'') then
          bind_outcome (as_string_get (node_at plugin ''local'')) (\<lambda>source.
          Returns (source, LocalPluginSource source))
        else Throws ''Plugin must have a source'')
       (\<lambda>(source, pSource).
     bind_outcome
       (if contains plugin ''name'' \<and> is_string (node_at plugin ''name'') then
          as_string_get (node_at plugin ''name'')
        else Returns (substr_after_last source CHR ''/''))
       (\<lambda>name. Returns
          \<lparr>m_sReqName = name, m_pSource = pSource,
           m_pBinaryPath =
             path_append (path_append (getPluginsPath c) ''bin'') (name @ ''.so'')\<rparr>))"

section \<open>A simulated environment\<close>

text \<open>
  One small instance of the environment, for running the functions on concrete inputs:
  a file system that maps a path to a regular file with its text or to a directory
  (directories here always hold entries, so removing one fails), a TOML parser given as
  a function of the file's text, and a shell given as a function of the command.
\<close>

datatype fnode = File string | Dir

type_synonym sim_fs = "path \<Rightarrow> fnode option"

definition sim_os ::
  "(string \<Rightarrow> toml_table outcome) \<Rightarrow> (string \<Rightarrow> sim_fs \<Rightarrow> (string \<times> int) \<times> sim_fs) \<Rightarrow> sim_fs os" where
  "sim_os parse shell =
     \<lparr>fs_exists = (\<lambda>p w. Returns (w p \<noteq> None)),
      fs_remove = (\<lambda>p w. case w p of
                      Some Dir \<Rightarrow> Throws ''filesystem error: cannot remove: Directory not empty''
                    | _ \<Rightarrow> Returns (w(p := None))),
      fs_copy = (\<lambda>from to w. case (w from, w to) of
                      (Some (File text), None) \<Rightarrow> Returns (w(to \<mapsto> File text))
                    | _ \<Rightarrow> Throws ''filesystem error: cannot copy''),
      toml_parse = (\<lambda>p w. case w p of
                      Some (File text) \<Rightarrow> parse text
                    | _ \<Rightarrow> Throws ''File could not be opened for reading''),
      std_system = (\<lambda>command w. case shell command w of ((output, status), w') \<Rightarrow> (status, w')),
      popen_read = (\<lambda>command w. case shell command w of (r, w') \<Rightarrow> (Some r, w'))\<rparr>"

definition sim_config :: config where
  "sim_config =
     \<lparr>getPluginsPath = ''/p'', getPluginBinariesPath = ''/p/bin'',
      getHyprlandHeadersPath = Some ''/h''\<rparr>"

text \<open>
  A plugin \<open>widget\<close> whose manifest declares the output \<open>build/libwidget.so\<close>, and a
  parser that knows this manifest. The file system holds the plugin twice: as a local
  directory \<open>/w/widget\<close> and as the clone \<open>/p/src/widget.git\<close> of the shorthand
  \<open>foo/widget\<close>; the binaries directory holds an artifact of an earlier build. The
  shell \<open>sim_shell nodes\<close> runs every command with status \<open>0\<close> and no output, and
  writes the given nodes; on the shell \<open>sim_shell_failing bad\<close> the command \<open>bad\<close>
  fails with status \<open>128\<close> and every other one succeeds, none changing a file.
\<close>

definition widget_toml :: string where
  \<open>widget_toml = ''widget = {build = {steps = ["make"], output = "build/libwidget.so"}}''\<close>

definition widget_table :: toml_table where
  "widget_table =
     [(''widget'', TTable [(''build'',
        TTable [(''steps'', TArray [TString ''make'']),
                (''output'', TString ''build/libwidget.so'')])])]"

definition widget_parse :: "string \<Rightarrow> toml_table outcome" where
  "widget_parse text = (if text = widget_toml then Returns widget_table else Throws ''parse error'')"

definition sim_shell :: "(path \<times> fnode) list \<Rightarrow> string \<Rightarrow> sim_fs \<Rightarrow> (string \<times> int) \<times> sim_fs" where
  "sim_shell nodes command w = (([], 0), fold (\<lambda>(p, n) w'. w'(p \<mapsto> n)) nodes w)"

definition sim_shell_failing :: "string \<Rightarrow> string \<Rightarrow> sim_fs \<Rightarrow> (string \<times> int) \<times> sim_fs" where
  "sim_shell_failing bad command w = (if command = bad then (([], 128), w) else (([], 0), w))"

definition widget_manifest :: PluginManifest where
  "widget_manifest =
     \<lparr>m_sName = ''widget'', m_sAuthors = [], m_sVersion = ''0.0.0'',
      m_sDescription = ''No description provided'',
      m_pBinaryOutputPath = ''build/libwidget.so'', m_sBuildSteps = [''make'']\<rparr>"

definition widget_fs :: sim_fs where
  "widget_fs =
     [''/p/bin'' \<mapsto> Dir, ''/p/bin/libwidget.so'' \<mapsto> File ''OLD'',
      ''/w/widget'' \<mapsto> Dir, ''/w/widget/build'' \<mapsto> Dir,
      ''/w/widget/hyprload.toml'' \<mapsto> File widget_toml,
      ''/p/src/widget.git'' \<mapsto> Dir, ''/p/src/widget.git/.git'' \<mapsto> Dir,
      ''/p/src/widget.git/build'' \<mapsto> Dir,
      ''/p/src/widget.git/hyprload.toml'' \<mapsto> File widget_toml]"

definition widget_local :: PluginSource where
  "widget_local = LocalPluginSource ''/w/widget''"

definition widget_git :: PluginSource where
  "widget_git = GitPluginSource ''https://github.com/foo/widget.git'' ''main'' ''/p/src/widget.git''"

definition widget_local_os :: "sim_fs os" where
  "widget_local_os = sim_os widget_parse (sim_shell [(''/w/widget/build/libwidget.so'', File ''ELF'')])"

definition widget_git_os :: "sim_fs os" where
  "widget_git_os =
     sim_os widget_parse (sim_shell [(''/p/src/widget.git/build/libwidget.so'', File ''ELF'')])"

text \<open>Before the first install nothing is cloned, and the shell's \<open>git clone\<close> writes the tree.\<close>

definition uncloned_fs :: sim_fs where
  "uncloned_fs = [''/p/bin'' \<mapsto> Dir]"

definition clone_os :: "sim_fs os" where
  "clone_os =
     sim_os widget_parse
       (sim_shell [(''/p/src/widget.git'', Dir), (''/p/src/widget.git/.git'', Dir),
                   (''/p/src/widget.git/hyprload.toml'', File widget_toml)])"

section \<open>Facts about strings, paths and arrays\<close>

lemma find_last_of_less: "find_last_of s ch = Some i \<Longrightarrow> i < length s"
  by (induction s arbitrary: i) (auto split: option.splits if_splits)

lemma find_last_of_None: "find_last_of s ch = None \<longleftrightarrow> ch \<notin> set s"
  by (induction s) (auto split: option.splits)

lemma find_last_of_append_notin:
  "ch \<notin> set t \<Longrightarrow> find_last_of (s @ t) ch = find_last_of s ch"
  by (induction s) (auto simp: find_last_of_None split: option.splits)

lemma substr_after_last_append:
  "ch \<notin> set t \<Longrightarrow> substr_after_last (s @ t) ch = substr_after_last s ch @ t"
  using find_last_of_less [of s ch]
  by (auto simp: substr_after_last_def find_last_of_append_notin split: option.splits)

lemma substr_after_last_notin: "ch \<notin> set s \<Longrightarrow> substr_after_last s ch = s"
  by (simp add: substr_after_last_def find_last_of_None [THEN iffD2])

lemma substr_after_last_snoc: "substr_after_last (s @ [ch]) ch = []"
  by (induction s) (auto simp: substr_after_last_def split: option.splits)

lemma find_last_of_snoc_sep: "find_last_of (s @ ch # t) ch = (case find_last_of t ch of None \<Rightarrow> Some (length s) | Some i \<Rightarrow> Some (length s + 1 + i))"
  by (induction s) (auto split: option.splits)

lemma substr_after_last_sep:
  "substr_after_last (s @ ch # t) ch = substr_after_last t ch"
  by (auto simp: substr_after_last_def find_last_of_snoc_sep split: option.splits)

lemma find_last_of_is_last: "find_last_of s ch = Some i \<Longrightarrow> ch \<notin> set (drop (Suc i) s)"
  by (induction s arbitrary: i) (auto simp: find_last_of_None split: option.splits if_splits)

lemma substr_after_last_no_sep: "ch \<notin> set (substr_after_last s ch)"
  by (auto simp: substr_after_last_def find_last_of_None dest: find_last_of_is_last split: option.splits)

lemma path_filename_append: "path_filename (path_append a b) = path_filename b"
proof (cases "b \<noteq> [] \<and> hd b = CHR ''/''")
  case True
  then show ?thesis by (simp add: path_append_def)
next
  case False
  note rel = this
  show ?thesis
  proof (cases "path_filename a = []")
    case False
    with rel show ?thesis
      using substr_after_last_sep [of a "CHR ''/''" b]
      by (simp add: path_append_def path_filename_def)
  next
    case True
    show ?thesis
    proof (cases a rule: rev_cases)
      case Nil
      with rel True show ?thesis by (simp add: path_append_def)
    next
      case (snoc a' x)
      have "x = CHR ''/''"
      proof (rule ccontr)
        assume "x \<noteq> CHR ''/''"
        then have "substr_after_last (a' @ [x]) CHR ''/'' = substr_after_last a' CHR ''/'' @ [x]"
          by (simp add: substr_after_last_append)
        with True snoc show False by (simp add: path_filename_def)
      qed
      with snoc rel True show ?thesis
        using substr_after_last_sep [of a' "CHR ''/''" b]
        by (simp add: path_append_def path_filename_def)
    qed
  qed
qed

lemma str_find_0: "str_find s needle = Some 0 \<longleftrightarrow> prefix needle s"
  by (cases s) (auto)

lemma push_strings_Returns:
  "push_strings msg vs acc = Returns r \<longleftrightarrow> (\<exists>ss. vs = map TString ss \<and> r = acc @ ss)"
proof (induction vs arbitrary: acc)
  case Nil
  then show ?case by auto
next
  case (Cons v vs)
  show ?case
  proof (cases v)
    case (TString s)
    have "(\<exists>ss. vs = map TString ss \<and> r = (acc @ [s]) @ ss) \<longleftrightarrow> (\<exists>ss. TString s # vs = map TString ss \<and> r = acc @ ss)"
      by (auto simp: map_eq_Cons_conv)
    with TString Cons.IH [of "acc @ [s]"] show ?thesis by simp
  qed (auto simp: map_eq_Cons_conv)
qed

lemma push_strings_not_NullDeref: "push_strings msg vs acc \<noteq> NullDeref"
proof (induction vs arbitrary: acc)
  case (Cons v vs)
  then show ?case by (cases v) auto
qed simp

lemma push_strings_Throws:
  "push_strings msg vs acc = Throws e \<longleftrightarrow> e = msg \<and> (\<exists>v\<in>set vs. \<not> is_string (Some v))"
proof (induction vs arbitrary: acc)
  case (Cons v vs)
  then show ?case by (cases v) auto
qed simp

lemma contains_iff: "contains t k \<longleftrightarrow> node_at t k \<noteq> None"
  by (simp add: contains_def node_at_def)

lemma node_at_delete: "node_at (AList.delete k t) k' = (if k' = k then None else node_at t k')"
  by (simp add: node_at_def delete_conv')

lemma bind_outcome_Returns:
  "bind_outcome m f = Returns r \<longleftrightarrow> (\<exists>x. m = Returns x \<and> f x = Returns r)"
  by (cases m) auto

lemma bind_outcome_Throws:
  "bind_outcome m f = Throws e \<longleftrightarrow> m = Throws e \<or> (\<exists>x. m = Returns x \<and> f x = Throws e)"
  by (cases m) auto

lemma bind_outcome_NullDeref:
  "bind_outcome m f = NullDeref \<longleftrightarrow> m = NullDeref \<or> (\<exists>x. m = Returns x \<and> f x = NullDeref)"
  by (cases m) auto

lemma is_table_iff: "is_table n \<longleftrightarrow> (\<exists>t. n = Some (TTable t))"
  by (cases n rule: is_table.cases) auto

lemma is_array_iff: "is_array n \<longleftrightarrow> (\<exists>vs. n = Some (TArray vs))"
  by (cases n rule: is_array.cases) auto

lemma is_string_iff: "is_string n \<longleftrightarrow> (\<exists>s. n = Some (TString s))"
  by (cases n rule: is_string.cases) auto

lemma as_string_get_Returns: "as_string_get n = Returns s \<longleftrightarrow> n = Some (TString s)"
  by (cases n rule: as_string_get.cases) auto

lemma as_string_get_not_Throws: "as_string_get n \<noteq> Throws e"
  by (cases n rule: as_string_get.cases) auto

lemma as_string_get_NullDeref: "as_string_get n = NullDeref \<longleftrightarrow> \<not> is_string n"
  by (cases n rule: as_string_get.cases) auto

lemma parse_authors_cases:
  "parse_authors t =
     (case node_at t ''authors'' of
        Some (TArray vs) \<Rightarrow> push_strings ''Author must be a string'' vs []
      | _ \<Rightarrow> (case node_at t ''author'' of
                None \<Rightarrow> Returns []
              | Some (TString s) \<Rightarrow> Returns [s]
              | Some _ \<Rightarrow> NullDeref))"
  by (simp add: parse_authors_def contains_iff split: option.splits toml_node.splits)

lemma parse_version_cases:
  "parse_version t =
     (case node_at t ''version'' of
        None \<Rightarrow> Returns ''0.0.0''
      | Some (TString s) \<Rightarrow> Returns s
      | Some _ \<Rightarrow> NullDeref)"
  by (simp add: parse_version_def contains_iff split: option.splits toml_node.splits)

lemma parse_description_cases:
  "parse_description t =
     (case node_at t ''description'' of
        None \<Rightarrow> Returns ''No description provided''
      | Some (TString s) \<Rightarrow> Returns s
      | Some _ \<Rightarrow> NullDeref)"
  by (simp add: parse_description_def contains_iff split: option.splits toml_node.splits)

lemma parse_build_cases:
  "parse_build name t =
     (case node_at t ''build'' of
        Some (TTable tb) \<Rightarrow>
          (case node_at tb ''steps'' of
             Some (TArray vs) \<Rightarrow>
               bind_outcome (push_strings ''Build step must be a string'' vs [])
                 (\<lambda>ss. Returns
                    (case node_at tb ''output'' of Some (TString s) \<Rightarrow> s | _ \<Rightarrow> name @ ''.so'', ss))
           | _ \<Rightarrow> Throws ''Plugin must have build steps'')
      | _ \<Rightarrow> Throws ''Plugin must have a build table'')"
  by (simp add: parse_build_def contains_iff split: option.splits toml_node.splits)

lemma parse_build_not_NullDeref: "parse_build name t \<noteq> NullDeref"
  by (simp add: parse_build_cases bind_outcome_NullDeref push_strings_not_NullDeref
           split: option.splits toml_node.splits)

lemma parse_build_Returns:
  "parse_build name t = Returns (out, steps) \<Longrightarrow>
     \<exists>tb. node_at t ''build'' = Some (TTable tb) \<and>
       node_at tb ''steps'' = Some (TArray (map TString steps))"
  by (auto simp: parse_build_cases bind_outcome_Returns push_strings_Returns
           split: option.splits toml_node.splits)

lemma PluginManifest_new_Returns_steps:
  assumes "PluginManifest_new name t = Returns m"
  shows "\<exists>tb. node_at t ''build'' = Some (TTable tb) \<and>
           node_at tb ''steps'' = Some (TArray (map TString (m_sBuildSteps m)))"
proof -
  from assms obtain out steps where "parse_build name t = Returns (out, steps)"
      and "m_sBuildSteps m = steps"
    by (auto simp: PluginManifest_new_def bind_outcome_Returns)
  then show ?thesis using parse_build_Returns by blast
qed

section \<open>Manifest parsing\<close>

text \<open>
  Where no null pointer is dereferenced, a missing or ill-typed \<open>build\<close> table, missing
  or ill-typed \<open>build.steps\<close>, a build step that is not a string and an author in the
  \<open>authors\<close> array that is not a string all end the constructor by an exception.
\<close>

lemma PluginManifest_new_structural_errors:
  assumes "PluginManifest_new name t \<noteq> NullDeref"
    and "\<not> is_table (node_at t ''build'')
       \<or> (\<exists>tb. node_at t ''build'' = Some (TTable tb) \<and>
             (\<not> is_array (node_at tb ''steps'')
              \<or> (\<exists>vs. node_at tb ''steps'' = Some (TArray vs) \<and> (\<exists>v\<in>set vs. \<not> is_string (Some v)))))
       \<or> (\<exists>vs. node_at t ''authors'' = Some (TArray vs) \<and> (\<exists>v\<in>set vs. \<not> is_string (Some v)))"
  shows "\<exists>msg. PluginManifest_new name t = Throws msg"
proof -
  have "\<not> (\<exists>m. PluginManifest_new name t = Returns m)"
  proof
    assume "\<exists>m. PluginManifest_new name t = Returns m"
    then obtain m where m: "PluginManifest_new name t = Returns m" ..
    from PluginManifest_new_Returns_steps [OF m] obtain tb where
      tb: "node_at t ''build'' = Some (TTable tb)"
        "node_at tb ''steps'' = Some (TArray (map TString (m_sBuildSteps m)))" by blast
    from m obtain a where "parse_authors t = Returns a"
      by (auto simp: PluginManifest_new_def bind_outcome_Returns)
    then have "\<not> (\<exists>vs. node_at t ''authors'' = Some (TArray vs) \<and> (\<exists>v\<in>set vs. \<not> is_string (Some v)))"
      by (auto simp: parse_authors_cases push_strings_Returns)
    with assms(2) tb show False by auto
  qed
  with assms(1) show ?thesis by (cases "PluginManifest_new name t") auto
qed

lemma PluginManifest_new_string_scalars:
  assumes "\<not> is_array (node_at t ''authors'') \<longrightarrow> contains t ''author'' \<longrightarrow> is_string (node_at t ''author'')"
    and "contains t ''version'' \<longrightarrow> is_string (node_at t ''version'')"
    and "contains t ''description'' \<longrightarrow> is_string (node_at t ''description'')"
  shows "PluginManifest_new name t \<noteq> NullDeref"
proof -
  have "parse_authors t \<noteq> NullDeref"
  proof (cases "is_array (node_at t ''authors'')")
    case True
    then show ?thesis
      by (auto simp: parse_authors_cases is_array_iff push_strings_not_NullDeref)
  next
    case False
    with assms(1) show ?thesis
      by (auto simp: parse_authors_cases contains_iff is_array_iff is_string_iff
            split: option.splits toml_node.splits)
  qed
  moreover have "parse_version t \<noteq> NullDeref"
    using assms(2) by (auto simp: parse_version_cases contains_iff split: option.splits toml_node.splits)
  moreover have "parse_description t \<noteq> NullDeref"
    using assms(3) by (auto simp: parse_description_cases contains_iff split: option.splits toml_node.splits)
  ultimately show ?thesis
    by (auto simp: PluginManifest_new_def bind_outcome_NullDeref parse_build_not_NullDeref)
qed

text \<open>
  C4 (the code departs from the claim). The claim: for every input table the constructor
  of a plugin manifest fails with a parse error if the \<open>build\<close> field is missing or not a
  table, if \<open>build.steps\<close> is missing, not an array or holds an element that is not a
  string, or if the \<open>authors\<close> array holds an element that is not a string. On the table
  \<open>{version = 1}\<close>, which has no \<open>build\<close> field, the constructor reads the version through
  the null pointer that \<open>as_string()\<close> gives for an integer, before it looks at \<open>build\<close>:
  it ends in a null dereference, not in a parse error.
\<close>

theorem manifest_missing_build_null_deref:
  "PluginManifest_new ''widget'' [(''version'', TInteger 1)] = NullDeref"
  by (simp add: PluginManifest_new_def parse_authors_def parse_version_def contains_def node_at_def)

text \<open>
  C6 (the code departs from the claim). The claim: parsing is total, every input table,
  also one whose \<open>version\<close>, \<open>description\<close>, \<open>author\<close> or \<open>authors\<close> value is not a
  string, gives a parsed object or a structural parse error and nothing else. A
  manifest whose \<open>description\<close> is the boolean \<open>true\<close> and whose \<open>build\<close> table is in
  order makes the plugin constructor, and with it the constructor of the enclosing
  hyprload manifest, dereference a null pointer.
\<close>

theorem manifest_parse_not_total:
  "PluginManifest_new ''widget''
     [(''description'', TBoolean True),
      (''build'', TTable [(''steps'', TArray [TString ''make''])])] = NullDeref
   \<and> HyprloadManifest_new
     [(''widget'', TTable [(''description'', TBoolean True),
        (''build'', TTable [(''steps'', TArray [TString ''make''])])])] = NullDeref"
  by (simp add: HyprloadManifest_new_def PluginManifest_new_def parse_authors_def parse_version_def
      parse_description_def contains_def node_at_def)

text \<open>
  C5, the claim as it stands: after every successful construction the build steps are
  not empty. It fails on a \<open>build.steps\<close> that is the empty array: the constructor
  succeeds with no build steps.
\<close>

theorem empty_build_steps_accepted:
  "PluginManifest_new ''widget'' [(''build'', TTable [(''steps'', TArray [])])] =
     Returns \<lparr>m_sName = ''widget'', m_sAuthors = [], m_sVersion = ''0.0.0'',
       m_sDescription = ''No description provided'', m_pBinaryOutputPath = ''widget.so'',
       m_sBuildSteps = []\<rparr>"
  by (simp add: PluginManifest_new_def parse_authors_def parse_version_def
      parse_description_def parse_build_def contains_def node_at_def)

text \<open>
  C5 (amended). After every successful construction of a plugin manifest the \<open>build\<close>
  field is a table, its \<open>steps\<close> field is an array of strings, and the build steps are
  exactly these strings in order; they are empty exactly when the array is.
\<close>

theorem build_steps_are_the_steps_array:
  "PluginManifest_new name t = Returns m \<Longrightarrow>
     \<exists>tb. node_at t ''build'' = Some (TTable tb) \<and>
          node_at tb ''steps'' = Some (TArray (map TString (m_sBuildSteps m)))"
  by (rule PluginManifest_new_Returns_steps)

theorem build_steps_are_the_steps_array_witness:
  "PluginManifest_new ''widget'' [(''build'', TTable [(''steps'', TArray [TString ''make''])])] =
     Returns \<lparr>m_sName = ''widget'', m_sAuthors = [], m_sVersion = ''0.0.0'',
       m_sDescription = ''No description provided'', m_pBinaryOutputPath = ''widget.so'',
       m_sBuildSteps = [''make'']\<rparr>
   \<and> (\<exists>tb. node_at [(''build'', TTable [(''steps'', TArray [TString ''make''])])] ''build'' = Some (TTable tb) \<and>
          node_at tb ''steps'' = Some (TArray (map TString [''make''])))"
proof -
  have h: "PluginManifest_new ''widget'' [(''build'', TTable [(''steps'', TArray [TString ''make''])])] =
     Returns \<lparr>m_sName = ''widget'', m_sAuthors = [], m_sVersion = ''0.0.0'',
       m_sDescription = ''No description provided'', m_pBinaryOutputPath = ''widget.so'',
       m_sBuildSteps = [''make'']\<rparr>"
    by (simp add: PluginManifest_new_def parse_authors_def parse_version_def
      parse_description_def parse_build_def contains_def node_at_def)
  from build_steps_are_the_steps_array [OF h] h show ?thesis by simp
qed

text \<open>
  C10. For every input table whose \<open>authors\<close> field is present but not an array,
  construction does not fail on that field: the value is ignored (the outcome is that of
  the table without the field, and never the exception of the authors loop), and the
  authors of a parsed manifest are the scalar \<open>author\<close> field if it is present, else
  the empty sequence.
\<close>

theorem authors_not_array_ignored:
  assumes "contains t ''authors''" and "\<not> is_array (node_at t ''authors'')"
  shows "PluginManifest_new name t = PluginManifest_new name (AList.delete ''authors'' t)
    \<and> PluginManifest_new name t \<noteq> Throws ''Author must be a string''
    \<and> (\<forall>m. PluginManifest_new name t = Returns m \<longrightarrow>
          (if contains t ''author'' then \<exists>s. node_at t ''author'' = Some (TString s) \<and> m_sAuthors m = [s]
           else m_sAuthors m = []))"
proof -
  from assms have na: "\<And>vs. node_at t ''authors'' \<noteq> Some (TArray vs)"
    by (auto simp: is_array_iff)
  have a: "parse_authors t =
      (case node_at t ''author'' of None \<Rightarrow> Returns [] | Some (TString s) \<Rightarrow> Returns [s]
       | Some _ \<Rightarrow> NullDeref)"
    using na by (simp add: parse_authors_cases split: option.splits toml_node.splits)
  have "parse_authors (AList.delete ''authors'' t) = parse_authors t"
    unfolding a by (simp add: parse_authors_cases node_at_delete)
  moreover have "parse_version (AList.delete ''authors'' t) = parse_version t"
    by (simp add: parse_version_cases node_at_delete)
  moreover have "parse_description (AList.delete ''authors'' t) = parse_description t"
    by (simp add: parse_description_cases node_at_delete)
  moreover have "parse_build name (AList.delete ''authors'' t) = parse_build name t"
    by (simp add: parse_build_cases node_at_delete)
  ultimately have eq: "PluginManifest_new name t = PluginManifest_new name (AList.delete ''authors'' t)"
    by (simp add: PluginManifest_new_def)
  have "parse_authors t \<noteq> Throws ''Author must be a string''"
    unfolding a by (simp split: option.splits toml_node.splits)
  moreover have "parse_version t \<noteq> Throws ''Author must be a string''"
    by (simp add: parse_version_cases split: option.splits toml_node.splits)
  moreover have "parse_description t \<noteq> Throws ''Author must be a string''"
    by (simp add: parse_description_cases split: option.splits toml_node.splits)
  moreover have "parse_build name t \<noteq> Throws ''Author must be a string''"
    by (simp add: parse_build_cases bind_outcome_Throws push_strings_Throws
          split: option.splits toml_node.splits)
  ultimately have nt: "PluginManifest_new name t \<noteq> Throws ''Author must be a string''"
    by (auto simp: PluginManifest_new_def bind_outcome_Throws)
  have "\<forall>m. PluginManifest_new name t = Returns m \<longrightarrow>
          (if contains t ''author'' then \<exists>s. node_at t ''author'' = Some (TString s) \<and> m_sAuthors m = [s]
           else m_sAuthors m = [])"
  proof (intro allI impI)
    fix m assume "PluginManifest_new name t = Returns m"
    then have "parse_authors t = Returns (m_sAuthors m)"
      by (auto simp: PluginManifest_new_def bind_outcome_Returns)
    then show "if contains t ''author'' then \<exists>s. node_at t ''author'' = Some (TString s) \<and> m_sAuthors m = [s]
           else m_sAuthors m = []"
      unfolding a by (auto simp: contains_iff split: option.splits toml_node.splits)
  qed
  with eq nt show ?thesis by blast
qed

theorem authors_not_array_ignored_witness:
  "contains [(''authors'', TString ''ann''), (''author'', TString ''bob''),
       (''build'', TTable [(''steps'', TArray [TString ''make''])])] ''authors''
   \<and> \<not> is_array (node_at [(''authors'', TString ''ann''), (''author'', TString ''bob''),
       (''build'', TTable [(''steps'', TArray [TString ''make''])])] ''authors'')
   \<and> PluginManifest_new ''widget'' [(''authors'', TString ''ann''), (''author'', TString ''bob''),
       (''build'', TTable [(''steps'', TArray [TString ''make''])])] =
     Returns \<lparr>m_sName = ''widget'', m_sAuthors = [''bob''], m_sVersion = ''0.0.0'',
       m_sDescription = ''No description provided'', m_pBinaryOutputPath = ''widget.so'',
       m_sBuildSteps = [''make'']\<rparr>
   \<and> PluginManifest_new ''widget'' [(''authors'', TString ''ann''), (''author'', TString ''bob''),
       (''build'', TTable [(''steps'', TArray [TString ''make''])])] =
     PluginManifest_new ''widget'' (AList.delete ''authors'' [(''authors'', TString ''ann''), (''author'', TString ''bob''),
       (''build'', TTable [(''steps'', TArray [TString ''make''])])])"
proof -
  let ?t = "[(''authors'', TString ''ann''), (''author'', TString ''bob''),
       (''build'', TTable [(''steps'', TArray [TString ''make''])])]"
  have c: "contains ?t ''authors''" by (simp add: contains_def)
  have n: "\<not> is_array (node_at ?t ''authors'')" by (simp add: node_at_def)
  have r: "PluginManifest_new ''widget'' ?t =
     Returns \<lparr>m_sName = ''widget'', m_sAuthors = [''bob''], m_sVersion = ''0.0.0'',
       m_sDescription = ''No description provided'', m_pBinaryOutputPath = ''widget.so'',
       m_sBuildSteps = [''make'']\<rparr>"
    by (simp add: PluginManifest_new_def parse_authors_def parse_version_def
      parse_description_def parse_build_def contains_def node_at_def)
  from authors_not_array_ignored [OF c n, of "''widget''"] c n r show ?thesis by blast
qed

section \<open>Requirements and Git sources\<close>

lemma node_at_contains: "node_at t k = Some v \<Longrightarrow> contains t k"
  by (simp add: contains_iff)

lemma GitPluginSource_new_shorthand:
  assumes "str_find url ''https://'' \<noteq> Some 0" and "str_find url ''git@'' \<noteq> Some 0"
  shows "GitPluginSource_new c url branch =
           GitPluginSource (''https://github.com/'' @ url @ ''.git'') branch
             (path_append (path_append (getPluginsPath c) ''src'')
                (substr_after_last url CHR ''/'' @ ''.git''))"
proof -
  have "substr_after_last (''https://github.com/'' @ url @ ''.git'') CHR ''/''
        = substr_after_last (url @ ''.git'') CHR ''/''"
    using substr_after_last_sep [of "''https://github.com''" "CHR ''/''" "url @ ''.git''"] by simp
  also have "\<dots> = substr_after_last url CHR ''/'' @ ''.git''"
    by (rule substr_after_last_append) simp
  finally show ?thesis using assms by (simp add: GitPluginSource_new_def)
qed

lemma string_field_or:
  "(if contains t k \<and> is_string (node_at t k) then as_string_get (node_at t k) else Returns d)
     = Returns (case node_at t k of Some (TString n) \<Rightarrow> n | _ \<Rightarrow> d)"
  by (simp add: contains_iff split: option.splits toml_node.splits)

lemma PluginRequirement_new_git:
  assumes "node_at t ''git'' = Some (TString g)"
  shows "PluginRequirement_new c t =
     Returns
       \<lparr>m_sReqName = (case node_at t ''name'' of Some (TString n) \<Rightarrow> n
                       | _ \<Rightarrow> substr_after_last g CHR ''/''),
        m_pSource = GitPluginSource_new c g
           (case node_at t ''branch'' of Some (TString b) \<Rightarrow> b | _ \<Rightarrow> ''main''),
        m_pBinaryPath = path_append (path_append (getPluginsPath c) ''bin'')
           ((case node_at t ''name'' of Some (TString n) \<Rightarrow> n
             | _ \<Rightarrow> substr_after_last g CHR ''/'') @ ''.so'')\<rparr>"
  unfolding PluginRequirement_new_def string_field_or
  using assms by (simp add: contains_iff)

lemma PluginRequirement_new_local:
  assumes "\<not> is_string (node_at t ''git'')" and "node_at t ''local'' = Some (TString l)"
  shows "PluginRequirement_new c t =
     Returns
       \<lparr>m_sReqName = (case node_at t ''name'' of Some (TString n) \<Rightarrow> n
                       | _ \<Rightarrow> substr_after_last l CHR ''/''),
        m_pSource = LocalPluginSource l,
        m_pBinaryPath = path_append (path_append (getPluginsPath c) ''bin'')
           ((case node_at t ''name'' of Some (TString n) \<Rightarrow> n
             | _ \<Rightarrow> substr_after_last l CHR ''/'') @ ''.so'')\<rparr>"
  unfolding PluginRequirement_new_def string_field_or
  using assms by (simp add: contains_iff)

lemma PluginRequirement_new_no_source:
  assumes "\<not> is_string (node_at t ''git'')" and "\<not> is_string (node_at t ''local'')"
  shows "PluginRequirement_new c t = Throws ''Plugin must have a source''"
  unfolding PluginRequirement_new_def string_field_or
  using assms by simp

text \<open>
  C7, the claim as it stands: whenever a \<open>git\<close> field is present a Git source is
  constructed. It fails on a \<open>git\<close> field that is not a string: with a \<open>local\<close> string
  beside it a Local source is constructed, and alone it is the missing-source error.
\<close>

theorem non_string_git_field_not_honoured:
  "contains [(''git'', TInteger 5), (''local'', TString ''/w/widget'')] ''git''
   \<and> PluginRequirement_new sim_config [(''git'', TInteger 5), (''local'', TString ''/w/widget'')] =
       Returns \<lparr>m_sReqName = ''widget'', m_pSource = LocalPluginSource ''/w/widget'',
         m_pBinaryPath = ''/p/bin/widget.so''\<rparr>
   \<and> contains [(''git'', TInteger 5)] ''git''
   \<and> PluginRequirement_new sim_config [(''git'', TInteger 5)] = Throws ''Plugin must have a source''"
  by code_simp

text \<open>
  C7 (amended). For every requirement entry: if the \<open>git\<close> field is present and a string,
  a Git source is constructed from it, with the \<open>branch\<close> field as branch if that is a
  string and \<open>main\<close> otherwise, whatever the \<open>local\<close> field is; else if the \<open>local\<close>
  field is present and a string, a Local source is constructed; else construction fails
  with the missing-source error. The entry \<open>{git = "foo/bar"}\<close> resolves to the name
  \<open>bar\<close>, the URL \<open>https://github.com/foo/bar.git\<close>, the branch \<open>main\<close> and the binary
  path \<open>bin/bar.so\<close> under the plugins directory.
\<close>

theorem requirement_source_selection:
  "(\<forall>g. node_at t ''git'' = Some (TString g) \<longrightarrow>
      (\<exists>r. PluginRequirement_new c t = Returns r \<and>
           m_pSource r = GitPluginSource_new c g
             (case node_at t ''branch'' of Some (TString b) \<Rightarrow> b | _ \<Rightarrow> ''main'')))
   \<and> (\<not> is_string (node_at t ''git'') \<longrightarrow>
        (\<forall>l. node_at t ''local'' = Some (TString l) \<longrightarrow>
           (\<exists>r. PluginRequirement_new c t = Returns r \<and> m_pSource r = LocalPluginSource l)))
   \<and> (\<not> is_string (node_at t ''git'') \<and> \<not> is_string (node_at t ''local'') \<longrightarrow>
        PluginRequirement_new c t = Throws ''Plugin must have a source'')
   \<and> PluginRequirement_new c [(''git'', TString ''foo/bar'')] =
        Returns \<lparr>m_sReqName = ''bar'',
          m_pSource = GitPluginSource ''https://github.com/foo/bar.git'' ''main''
            (path_append (path_append (getPluginsPath c) ''src'') ''bar.git''),
          m_pBinaryPath = path_append (path_append (getPluginsPath c) ''bin'') ''bar.so''\<rparr>"
proof (intro conjI allI impI)
  fix g assume "node_at t ''git'' = Some (TString g)"
  then show "\<exists>r. PluginRequirement_new c t = Returns r \<and>
           m_pSource r = GitPluginSource_new c g
             (case node_at t ''branch'' of Some (TString b) \<Rightarrow> b | _ \<Rightarrow> ''main'')"
    by (simp add: PluginRequirement_new_git)
next
  fix l assume "\<not> is_string (node_at t ''git'')" and "node_at t ''local'' = Some (TString l)"
  then show "\<exists>r. PluginRequirement_new c t = Returns r \<and> m_pSource r = LocalPluginSource l"
    by (simp add: PluginRequirement_new_local)
next
  assume "\<not> is_string (node_at t ''git'') \<and> \<not> is_string (node_at t ''local'')"
  then show "PluginRequirement_new c t = Throws ''Plugin must have a source''"
    by (simp add: PluginRequirement_new_no_source)
next
  have a: "substr_after_last ''foo/bar'' CHR ''/'' = ''bar''" by code_simp
  have b: "str_find ''foo/bar'' ''https://'' \<noteq> Some 0" "str_find ''foo/bar'' ''git@'' \<noteq> Some 0"
    by simp_all
  show "PluginRequirement_new c [(''git'', TString ''foo/bar'')] =
        Returns \<lparr>m_sReqName = ''bar'',
          m_pSource = GitPluginSource ''https://github.com/foo/bar.git'' ''main''
            (path_append (path_append (getPluginsPath c) ''src'') ''bar.git''),
          m_pBinaryPath = path_append (path_append (getPluginsPath c) ''bin'') ''bar.so''\<rparr>"
    using PluginRequirement_new_git [of "[(''git'', TString ''foo/bar'')]" "''foo/bar''" c]
    by (simp add: GitPluginSource_new_shorthand [OF b] a node_at_def)
qed

theorem requirement_source_selection_witness:
  "(\<exists>r. PluginRequirement_new sim_config [(''git'', TString ''foo/bar''), (''local'', TString ''/w/widget'')] = Returns r
        \<and> m_pSource r = GitPluginSource ''https://github.com/foo/bar.git'' ''main'' ''/p/src/bar.git'')
   \<and> (\<exists>r. PluginRequirement_new sim_config [(''local'', TString ''/w/widget'')] = Returns r
        \<and> m_pSource r = LocalPluginSource ''/w/widget'')
   \<and> PluginRequirement_new sim_config [(''name'', TString ''widget'')] = Throws ''Plugin must have a source''"
proof -
  let ?t1 = "[(''git'', TString ''foo/bar''), (''local'', TString ''/w/widget'')]"
  let ?t2 = "[(''local'', TString ''/w/widget'')]"
  let ?t3 = "[(''name'', TString ''widget'')]"
  have g: "node_at ?t1 ''git'' = Some (TString ''foo/bar'')" by (simp add: node_at_def)
  have s: "GitPluginSource_new sim_config ''foo/bar''
             (case node_at ?t1 ''branch'' of Some (TString b) \<Rightarrow> b | _ \<Rightarrow> ''main'')
           = GitPluginSource ''https://github.com/foo/bar.git'' ''main'' ''/p/src/bar.git''"
    by code_simp
  have l: "\<not> is_string (node_at ?t2 ''git'')" "node_at ?t2 ''local'' = Some (TString ''/w/widget'')"
    by (simp_all add: node_at_def)
  have n: "\<not> is_string (node_at ?t3 ''git'') \<and> \<not> is_string (node_at ?t3 ''local'')"
    by (simp add: node_at_def)
  from requirement_source_selection [of ?t1 sim_config] g s
  have 1: "\<exists>r. PluginRequirement_new sim_config ?t1 = Returns r
        \<and> m_pSource r = GitPluginSource ''https://github.com/foo/bar.git'' ''main'' ''/p/src/bar.git''"
    by metis
  from requirement_source_selection [of ?t2 sim_config] l
  have 2: "\<exists>r. PluginRequirement_new sim_config ?t2 = Returns r \<and> m_pSource r = LocalPluginSource ''/w/widget''"
    by blast
  from requirement_source_selection [of ?t3 sim_config] n
  have 3: "PluginRequirement_new sim_config ?t3 = Throws ''Plugin must have a source''"
    by blast
  from 1 2 3 show ?thesis by blast
qed

text \<open>
  C9, the claim as it stands: for a Git source given by the shorthand \<open>owner/repo\<close> the
  source tree is \<open>src/repo\<close> under the plugins directory, \<open>repo\<close> being the derived name
  of the requirement. For \<open>foo/bar\<close> under \<open>/p\<close> the derived name is \<open>bar\<close> and the
  source tree is \<open>/p/src/bar.git\<close>.
\<close>

theorem git_source_path_not_derived_name:
  "PluginRequirement_new sim_config [(''git'', TString ''foo/bar'')] =
     Returns \<lparr>m_sReqName = ''bar'',
       m_pSource = GitPluginSource ''https://github.com/foo/bar.git'' ''main'' ''/p/src/bar.git'',
       m_pBinaryPath = ''/p/bin/bar.so''\<rparr>
   \<and> ''/p/src/bar.git'' \<noteq> path_append (path_append (getPluginsPath sim_config) ''src'') ''bar''
   \<and> ''/p/src/bar.git'' \<noteq> path_append (path_append (getPluginsPath sim_config) ''src'') ''bar'' @ ''/''"
  by code_simp

text \<open>
  C9 (amended). For every requirement whose \<open>git\<close> field is a shorthand (a string that
  starts with neither \<open>https://\<close> nor \<open>git@\<close>) and that has no string \<open>name\<close> field, the
  derived name is the text after the last slash of the shorthand, the URL is the
  shorthand between \<open>https://github.com/\<close> and \<open>.git\<close>, and the source tree is the
  plugins directory, then \<open>src\<close>, then the last segment of that URL: the derived name
  followed by \<open>.git\<close>.
\<close>

theorem git_shorthand_source_path:
  assumes "str_find url ''https://'' \<noteq> Some 0" and "str_find url ''git@'' \<noteq> Some 0"
    and "node_at t ''git'' = Some (TString url)" and "\<not> is_string (node_at t ''name'')"
  shows "\<exists>r. PluginRequirement_new c t = Returns r
           \<and> m_sReqName r = substr_after_last url CHR ''/''
           \<and> m_sUrl (m_pSource r) = ''https://github.com/'' @ url @ ''.git''
           \<and> m_pSourcePath (m_pSource r) =
               path_append (path_append (getPluginsPath c) ''src'') (m_sReqName r @ ''.git'')"
proof -
  from assms(4) have "(case node_at t ''name'' of Some (TString n) \<Rightarrow> n | _ \<Rightarrow> d) = d" for d :: string
    by (simp add: is_string_iff split: option.splits toml_node.splits)
  with assms(3) show ?thesis
    by (simp add: PluginRequirement_new_git GitPluginSource_new_shorthand [OF assms(1,2)])
qed

theorem git_shorthand_source_path_witness:
  "\<exists>r. PluginRequirement_new sim_config [(''git'', TString ''foo/bar'')] = Returns r
           \<and> m_sReqName r = ''bar''
           \<and> m_sUrl (m_pSource r) = ''https://github.com/foo/bar.git''
           \<and> m_pSourcePath (m_pSource r) = ''/p/src/bar.git''"
proof -
  have 1: "str_find ''foo/bar'' ''https://'' \<noteq> Some 0" by simp
  have 2: "str_find ''foo/bar'' ''git@'' \<noteq> Some 0" by simp
  have 3: "node_at [(''git'', TString ''foo/bar'')] ''git'' = Some (TString ''foo/bar'')"
    by (simp add: node_at_def)
  have 4: "\<not> is_string (node_at [(''git'', TString ''foo/bar'')] ''name'')"
    by (simp add: node_at_def)
  have 5: "substr_after_last ''foo/bar'' CHR ''/'' = ''bar''" by code_simp
  have 6: "path_append (path_append (getPluginsPath sim_config) ''src'') (''bar'' @ ''.git'') = ''/p/src/bar.git''"
    by code_simp
  from git_shorthand_source_path [OF 1 2 3 4, of sim_config] obtain r where
    r: "PluginRequirement_new sim_config [(''git'', TString ''foo/bar'')] = Returns r"
       "m_sReqName r = substr_after_last ''foo/bar'' CHR ''/''"
       "m_sUrl (m_pSource r) = ''https://github.com/'' @ ''foo/bar'' @ ''.git''"
       "m_pSourcePath (m_pSource r) =
          path_append (path_append (getPluginsPath sim_config) ''src'') (m_sReqName r @ ''.git'')"
    by blast
  from r(2) have n: "m_sReqName r = ''bar''" by (simp only: 5)
  from r(4) have "m_pSourcePath (m_pSource r) = ''/p/src/bar.git''" by (simp only: n 6)
  with r(1) n r(3) show ?thesis by auto
qed

section \<open>Sequencing, freshness and publishing\<close>

lemma str_find_None: "str_find s needle = None \<longleftrightarrow> \<not> sublist needle s"
  by (induction s) (auto simp: sublist_Cons_right)

text \<open>
  The freshness check of a Git source in full: the result is true exactly when
  \<open>git remote update\<close> ended with status \<open>0\<close>, \<open>git status -uno\<close> ended with a status
  other than \<open>0\<close>, and its captured output does not contain \<open>ahead\<close>.
\<close>

lemma isUpToDate_git:
  "isUpToDate os (GitPluginSource url branch sourcePath) w =
     (case std_system os (''git -C '' @ sourcePath @ '' remote update'') w of
        (status, w1) \<Rightarrow>
          (case executeCommand os (''git -C '' @ sourcePath @ '' status -uno'') w1 of
             ((exit, output), w2) \<Rightarrow>
               if status \<noteq> 0 then (False, w1)
               else (exit \<noteq> 0 \<and> \<not> sublist ''ahead'' output, w2)))"
  by (simp add: str_find_None split: prod.splits)

lemma bind_act_Returns:
  "bind_act m f w = (Returns r, w') \<longleftrightarrow> (\<exists>x w1. m w = (Returns x, w1) \<and> f x w1 = (Returns r, w'))"
  by (auto simp: bind_act_def split: prod.splits outcome.splits)

lemma reading_Returns: "reading r w = (Returns x, w') \<longleftrightarrow> r w = Returns x \<and> w' = w"
  by (auto simp: reading_def)

lemma updating_Returns: "updating u w = (Returns x, w') \<longleftrightarrow> u w = Returns w'"
  by (auto simp: updating_def split: outcome.splits)

lemma ret_Returns: "ret x w = (Returns y, w') \<longleftrightarrow> y = x \<and> w' = w"
  by (auto simp: ret_def)

lemma bind_act_reading:
  "bind_act (reading r) f w = (case r w of Returns x \<Rightarrow> f x w | Throws e \<Rightarrow> (Throws e, w) | NullDeref \<Rightarrow> (NullDeref, w))"
  by (simp add: bind_act_def reading_def split: outcome.splits)

lemma path_filename_default_output:
  "CHR ''/'' \<notin> set name \<Longrightarrow> path_filename (path_append sourcePath (name @ ''.so'')) = name @ ''.so''"
  by (simp add: path_filename_append) (simp add: path_filename_def substr_after_last_notin)

lemma publish_shape:
  assumes "bind_act B (\<lambda>result. case result of err e \<Rightarrow> ret (err e) | ok u \<Rightarrow>
      bind_act (reading G) (\<lambda>mr. case mr of err e \<Rightarrow> ret (err e) | ok m \<Rightarrow>
      bind_act (reading (E m)) (\<lambda>built. if \<not> built then ret (err msg) else
      bind_act (reading (S m)) (\<lambda>stale.
      bind_act (if stale then updating (R m) else ret ()) (\<lambda>u1.
      bind_act (updating (C m)) (\<lambda>u2. ret (ok ()))))))) w = (Returns (ok u), w')"
  shows "\<exists>m w1 w2. B w = (Returns (ok ()), w1) \<and> G w1 = Returns (ok m) \<and> E m w1 = Returns True
      \<and> (S m w1 = Returns False \<and> w2 = w1 \<or> S m w1 = Returns True \<and> R m w1 = Returns w2)
      \<and> C m w2 = Returns w'"
proof -
  from assms obtain r w1 where b: "B w = (Returns r, w1)"
    and k1: "(case r of err e \<Rightarrow> ret (err e) | ok u \<Rightarrow>
      bind_act (reading G) (\<lambda>mr. case mr of err e \<Rightarrow> ret (err e) | ok m \<Rightarrow>
      bind_act (reading (E m)) (\<lambda>built. if \<not> built then ret (err msg) else
      bind_act (reading (S m)) (\<lambda>stale.
      bind_act (if stale then updating (R m) else ret ()) (\<lambda>u1.
      bind_act (updating (C m)) (\<lambda>u2. ret (ok ()))))))) w1 = (Returns (ok u), w')"
    by (auto simp only: bind_act_Returns)
  from k1 have r: "r = ok ()" by (cases r) (simp_all add: ret_Returns)
  from k1 r obtain mr where g: "G w1 = Returns mr"
    and k2: "(case mr of err e \<Rightarrow> ret (err e) | ok m \<Rightarrow>
      bind_act (reading (E m)) (\<lambda>built. if \<not> built then ret (err msg) else
      bind_act (reading (S m)) (\<lambda>stale.
      bind_act (if stale then updating (R m) else ret ()) (\<lambda>u1.
      bind_act (updating (C m)) (\<lambda>u2. ret (ok ())))))) w1 = (Returns (ok u), w')"
    by (auto simp add: bind_act_reading split: outcome.splits)
  from k2 obtain m where m: "mr = ok m" by (cases mr) (simp_all add: ret_Returns)
  from k2 m have ex: "E m w1 = Returns True"
    and k3: "bind_act (reading (S m)) (\<lambda>stale.
      bind_act (if stale then updating (R m) else ret ()) (\<lambda>u1.
      bind_act (updating (C m)) (\<lambda>u2. ret (ok ())))) w1 = (Returns (ok u), w')"
    by (auto simp add: bind_act_reading ret_Returns split: outcome.splits if_splits)
  from k3 obtain stale where st: "S m w1 = Returns stale"
    and k4: "bind_act (if stale then updating (R m) else ret ()) (\<lambda>u1.
      bind_act (updating (C m)) (\<lambda>u2. ret (ok ()))) w1 = (Returns (ok u), w')"
    by (auto simp add: bind_act_reading split: outcome.splits)
  from k4 obtain w2 where rm: "(if stale then updating (R m) else ret ()) w1 = (Returns (), w2)"
    and k5: "bind_act (updating (C m)) (\<lambda>u2. ret (ok ())) w2 = (Returns (ok u), w')"
    using bind_act_Returns [THEN iffD1, OF k4] by auto
  from k5 have cp: "C m w2 = Returns w'"
    by (auto simp add: bind_act_Returns updating_Returns ret_Returns)
  from st rm have "S m w1 = Returns False \<and> w2 = w1 \<or> S m w1 = Returns True \<and> R m w1 = Returns w2"
    by (cases stale) (simp_all add: updating_Returns ret_Returns)
  with b r g m ex cp show ?thesis by blast
qed

lemma build_and_publish_ok:
  assumes "build_and_publish c os src name w = (Returns (ok u), w')"
  shows "\<exists>m w1 w2.
      build c os src name w = (Returns (ok ()), w1)
      \<and> getPluginManifest os (m_pSourcePath src) name w1 = Returns (ok m)
      \<and> fs_exists os (path_append (m_pSourcePath src) (m_pBinaryOutputPath m)) w1 = Returns True
      \<and> (fs_exists os (path_append (getPluginBinariesPath c) (path_filename (m_pBinaryOutputPath m))) w1
            = Returns False \<and> w2 = w1
         \<or> fs_exists os (path_append (getPluginBinariesPath c) (path_filename (m_pBinaryOutputPath m))) w1
            = Returns True
           \<and> fs_remove os (path_append (getPluginBinariesPath c) (path_filename (m_pBinaryOutputPath m))) w1
            = Returns w2)
      \<and> fs_copy os (path_append (m_pSourcePath src) (m_pBinaryOutputPath m))
           (path_append (getPluginBinariesPath c) (path_filename (m_pBinaryOutputPath m))) w2
          = Returns w'"
  using assms [unfolded build_and_publish_def Let_def path_filename_append]
  by (rule publish_shape)

lemma install_available:
  "isSourceAvailable os src w = Returns True \<Longrightarrow> install c os src name w = build_and_publish c os src name w"
  by (cases src) (simp_all add: bind_act_reading)

lemma build_and_publish_build_err:
  "build c os src name w = (Returns (err e), w1) \<Longrightarrow>
     build_and_publish c os src name w = (Returns (err e), w1)"
  by (simp add: build_and_publish_def bind_act_def ret_def)

lemma build_and_publish_after_build:
  "build c os src name w = (Returns (ok ()), w1) \<Longrightarrow>
     build_and_publish c os src name w =
       (case getPluginManifest os (m_pSourcePath src) name w1 of
          Returns (err e) \<Rightarrow> (Returns (err e), w1)
        | Returns (ok m) \<Rightarrow>
            (case fs_exists os (path_append (m_pSourcePath src) (m_pBinaryOutputPath m)) w1 of
               Returns built \<Rightarrow>
                 if \<not> built then (Returns (err ''Plugin binary does not exist''), w1)
                 else bind_act
                   (reading (fs_exists os (path_append (getPluginBinariesPath c)
                       (path_filename (m_pBinaryOutputPath m)))))
                   (\<lambda>stale. bind_act
                      (if stale then updating (fs_remove os (path_append (getPluginBinariesPath c)
                          (path_filename (m_pBinaryOutputPath m)))) else ret ())
                      (\<lambda>u1. bind_act
                         (updating (fs_copy os (path_append (m_pSourcePath src) (m_pBinaryOutputPath m))
                            (path_append (getPluginBinariesPath c) (path_filename (m_pBinaryOutputPath m)))))
                         (\<lambda>u2. ret (ok ())))) w1
             | Throws x \<Rightarrow> (Throws x, w1)
             | NullDeref \<Rightarrow> (NullDeref, w1))
        | Throws x \<Rightarrow> (Throws x, w1)
        | NullDeref \<Rightarrow> (NullDeref, w1))"
  unfolding build_and_publish_def Let_def path_filename_append
  by (simp add: bind_act_def reading_def ret_def split: outcome.splits result.splits)

section \<open>Freshness, build and install\<close>

lemma sim_remove_file:
  "w p = Some (File text) \<Longrightarrow> fs_remove (sim_os parse sh) p w = Returns (w(p := None))"
  by (simp add: sim_os_def)

lemma sim_copy_file:
  "w from = Some (File text) \<Longrightarrow> w to = None \<Longrightarrow>
     fs_copy (sim_os parse sh) from to w = Returns (w(to \<mapsto> File text))"
  by (simp add: sim_os_def)

lemma pair_fst_snd: "fst p = a \<Longrightarrow> p = (a, snd p)"
  by (cases p) simp

text \<open>
  C3. The Git variant of \<open>isUpToDate\<close> returns true only when \<open>git remote update\<close>
  succeeded (status \<open>0\<close>) and the captured output of \<open>git status -uno\<close> has no
  \<open>ahead\<close> marker; the Local variant returns false for every state of the world, which
  it neither reads nor changes.
\<close>

theorem isUpToDate_true_only_when:
  "(fst (isUpToDate os (GitPluginSource url branch sourcePath) w) \<longrightarrow>
      fst (std_system os (''git -C '' @ sourcePath @ '' remote update'') w) = 0
      \<and> \<not> sublist ''ahead''
            (snd (fst (executeCommand os (''git -C '' @ sourcePath @ '' status -uno'')
               (snd (std_system os (''git -C '' @ sourcePath @ '' remote update'') w))))))
   \<and> isUpToDate os (LocalPluginSource sourcePath) w = (False, w)"
  by (auto simp: str_find_None split: prod.splits if_splits)

theorem isUpToDate_true_only_when_witness:
  "fst (isUpToDate (sim_os widget_parse (sim_shell_failing ''git -C /p/src/widget.git status -uno''))
         (GitPluginSource ''https://github.com/foo/widget.git'' ''main'' ''/p/src/widget.git'') widget_fs)
   \<and> fst (std_system (sim_os widget_parse (sim_shell_failing ''git -C /p/src/widget.git status -uno''))
         (''git -C '' @ ''/p/src/widget.git'' @ '' remote update'') widget_fs) = 0
   \<and> \<not> sublist ''ahead''
        (snd (fst (executeCommand
           (sim_os widget_parse (sim_shell_failing ''git -C /p/src/widget.git status -uno''))
           (''git -C '' @ ''/p/src/widget.git'' @ '' status -uno'')
           (snd (std_system (sim_os widget_parse (sim_shell_failing ''git -C /p/src/widget.git status -uno''))
                  (''git -C '' @ ''/p/src/widget.git'' @ '' remote update'') widget_fs)))))"
proof -
  have t: "fst (isUpToDate (sim_os widget_parse (sim_shell_failing ''git -C /p/src/widget.git status -uno''))
         (GitPluginSource ''https://github.com/foo/widget.git'' ''main'' ''/p/src/widget.git'') widget_fs)"
    by code_simp
  with isUpToDate_true_only_when
    [of "sim_os widget_parse (sim_shell_failing ''git -C /p/src/widget.git status -uno'')"
        "''https://github.com/foo/widget.git''" "''main''" "''/p/src/widget.git''" widget_fs]
  show ?thesis by blast
qed

text \<open>
  C8, the claim as it stands: whenever the headers cannot be found, \<open>buildPlugin\<close> fails
  with the setup-instructions error, before the manifest is loaded or any manifest
  error reported. With no headers and a source directory without \<open>hyprload.toml\<close> the
  error returned is the manifest's.
\<close>

theorem manifest_error_reported_before_headers:
  "getHyprlandHeadersPath (sim_config\<lparr>getHyprlandHeadersPath := None\<rparr>) = None
   \<and> buildPlugin (sim_config\<lparr>getHyprlandHeadersPath := None\<rparr>) widget_local_os
        ''/w/widget'' ''widget'' [''/w/widget'' \<mapsto> Dir]
      = (Returns (err ''Source does not have a hyprload.toml manifest''), [''/w/widget'' \<mapsto> Dir])"
  by (simp add: buildPlugin_def getPluginManifest_def getHyprlandManifest_def bind_act_def reading_def
        ret_def widget_local_os_def sim_os_def path_append_def path_filename_def substr_after_last_def)

text \<open>
  C8 (amended). For every call of \<open>buildPlugin\<close> the header location is looked up
  first, but examined only after the plugin manifest is loaded. Whenever the headers
  cannot be found, a manifest error (or an exception of the manifest constructors)
  is reported as it is, and if the manifest loads \<open>buildPlugin\<close> fails with the
  setup-instructions error; in both cases no command is run and the world is unchanged.
\<close>

theorem buildPlugin_headers_checked_after_manifest:
  assumes "getHyprlandHeadersPath c = None"
  shows "buildPlugin c os sourcePath name w =
     (bind_outcome (getPluginManifest os sourcePath name w)
        (\<lambda>pluginManifestResult. Returns
           (case pluginManifestResult of
              err e \<Rightarrow> err e
            | ok pluginManifest \<Rightarrow> err
                ''Could not find hyprland headers. Refer to https://github.com/Duckonaut/hyprload#Setup'')),
      w)"
  using assms
  by (simp add: buildPlugin_def bind_act_reading ret_def split: outcome.splits result.splits)

theorem buildPlugin_headers_checked_after_manifest_witness:
  "getHyprlandHeadersPath (sim_config\<lparr>getHyprlandHeadersPath := None\<rparr>) = None
   \<and> buildPlugin (sim_config\<lparr>getHyprlandHeadersPath := None\<rparr>) widget_local_os
        ''/w/widget'' ''widget'' widget_fs
      = (Returns (err
           ''Could not find hyprland headers. Refer to https://github.com/Duckonaut/hyprload#Setup''),
         widget_fs)"
proof -
  have h: "getHyprlandHeadersPath (sim_config\<lparr>getHyprlandHeadersPath := None\<rparr>) = None" by simp
  have m: "getPluginManifest widget_local_os ''/w/widget'' ''widget'' widget_fs = Returns (ok widget_manifest)"
    by code_simp
  from buildPlugin_headers_checked_after_manifest [OF h, of widget_local_os "''/w/widget''" "''widget''" widget_fs]
  show ?thesis by (simp add: m)
qed

text \<open>
  C2. For every Git source whose tree is absent (\<open>.git\<close> does not exist under the
  source path) \<open>install\<close> is \<open>installSource\<close>: the one \<open>git clone\<close> command, whose result
  it returns, and no build. For every Git source whose tree is present \<open>install\<close>
  builds first and returns a build error; then loads the plugin manifest and returns
  its error; then fails with \<open>Plugin binary does not exist\<close> if the declared output is
  missing; then removes the file at the target path if one exists, and copies the
  fresh artifact there.
\<close>

theorem git_install_clone_or_build_publish:
  "(isSourceAvailable os (GitPluginSource url branch sourcePath) w = Returns False \<longrightarrow>
      install c os (GitPluginSource url branch sourcePath) name w
        = installSource os (GitPluginSource url branch sourcePath) w
      \<and> installSource os (GitPluginSource url branch sourcePath) w
        = (case std_system os (clone_command (GitPluginSource url branch sourcePath)) w of
             (status, w') \<Rightarrow>
               (Returns (if status \<noteq> 0 then err ''Failed to clone plugin source'' else ok ()), w')))
   \<and> (isSourceAvailable os (GitPluginSource url branch sourcePath) w = Returns True \<longrightarrow>
       (\<forall>e w1. buildPlugin c os sourcePath name w = (Returns (err e), w1) \<longrightarrow>
           install c os (GitPluginSource url branch sourcePath) name w = (Returns (err e), w1))
       \<and> (\<forall>w1. buildPlugin c os sourcePath name w = (Returns (ok ()), w1) \<longrightarrow>
           (\<forall>e. getPluginManifest os sourcePath name w1 = Returns (err e) \<longrightarrow>
               install c os (GitPluginSource url branch sourcePath) name w = (Returns (err e), w1))
           \<and> (\<forall>m. getPluginManifest os sourcePath name w1 = Returns (ok m) \<longrightarrow>
               (fs_exists os (path_append sourcePath (m_pBinaryOutputPath m)) w1 = Returns False \<longrightarrow>
                  install c os (GitPluginSource url branch sourcePath) name w
                    = (Returns (err ''Plugin binary does not exist''), w1))
               \<and> (fs_exists os (path_append sourcePath (m_pBinaryOutputPath m)) w1 = Returns True \<longrightarrow>
                  (fs_exists os (path_append (getPluginBinariesPath c)
                       (path_filename (m_pBinaryOutputPath m))) w1 = Returns False \<longrightarrow>
                     (\<forall>w3. fs_copy os (path_append sourcePath (m_pBinaryOutputPath m))
                             (path_append (getPluginBinariesPath c)
                                (path_filename (m_pBinaryOutputPath m))) w1 = Returns w3 \<longrightarrow>
                        install c os (GitPluginSource url branch sourcePath) name w
                          = (Returns (ok ()), w3)))
                  \<and> (fs_exists os (path_append (getPluginBinariesPath c)
                       (path_filename (m_pBinaryOutputPath m))) w1 = Returns True \<longrightarrow>
                     (\<forall>w2 w3. fs_remove os (path_append (getPluginBinariesPath c)
                                (path_filename (m_pBinaryOutputPath m))) w1 = Returns w2 \<longrightarrow>
                        fs_copy os (path_append sourcePath (m_pBinaryOutputPath m))
                             (path_append (getPluginBinariesPath c)
                                (path_filename (m_pBinaryOutputPath m))) w2 = Returns w3 \<longrightarrow>
                        install c os (GitPluginSource url branch sourcePath) name w
                          = (Returns (ok ()), w3)))))))"
  (is "(?absent \<longrightarrow> ?A) \<and> (?present \<longrightarrow> ?P)")
proof (rule conjI)
  show "?absent \<longrightarrow> ?A"
    by (simp add: bind_act_reading split: prod.splits)
next
  let ?src = "GitPluginSource url branch sourcePath"
  have b: "build c os ?src name = buildPlugin c os sourcePath name" by simp
  have sp: "m_pSourcePath ?src = sourcePath" by simp
  note step = build_and_publish_after_build [of c os ?src name w, unfolded b sp]
  show "?present \<longrightarrow> ?P"
  proof
    assume p: ?present
    have i: "install c os ?src name w = build_and_publish c os ?src name w"
      using p by (rule install_available)
    show ?P
      unfolding i
      apply (intro conjI allI impI)
      subgoal for e w1 using build_and_publish_build_err [of c os ?src name w e w1] by (simp only: b)
      subgoal for w1 e by (simp add: step)
      subgoal for w1 m by (simp add: step)
      subgoal for w1 m w3
        by (simp add: step bind_act_def reading_def updating_def ret_def)
      subgoal for w1 m w2 w3
        by (simp add: step bind_act_def reading_def updating_def ret_def)
      done
  qed
qed

theorem git_install_clone_or_build_publish_witness:
  "install sim_config clone_os widget_git ''widget'' uncloned_fs
     = installSource clone_os widget_git uncloned_fs
   \<and> fst (installSource clone_os widget_git uncloned_fs) = Returns (ok ())
   \<and> snd (installSource clone_os widget_git uncloned_fs) ''/p/src/widget.git/build/libwidget.so'' = None
   \<and> install sim_config widget_git_os widget_git ''widget'' widget_fs
     = (Returns (ok ()),
        (snd (buildPlugin sim_config widget_git_os ''/p/src/widget.git'' ''widget'' widget_fs))
          (''/p/bin/libwidget.so'' := None, ''/p/bin/libwidget.so'' \<mapsto> File ''ELF''))"
proof -
  let ?w1 = "snd (buildPlugin sim_config widget_git_os ''/p/src/widget.git'' ''widget'' widget_fs)"
  note main = git_install_clone_or_build_publish
  have absent: "isSourceAvailable clone_os
      (GitPluginSource ''https://github.com/foo/widget.git'' ''main'' ''/p/src/widget.git'') uncloned_fs
      = Returns False"
    by code_simp
  from main [of clone_os "''https://github.com/foo/widget.git''" "''main''" "''/p/src/widget.git''"
              uncloned_fs sim_config "''widget''"] absent
  have 1: "install sim_config clone_os widget_git ''widget'' uncloned_fs
     = installSource clone_os widget_git uncloned_fs"
    unfolding widget_git_def by blast
  have 2: "fst (installSource clone_os widget_git uncloned_fs) = Returns (ok ())" by code_simp
  have 3: "snd (installSource clone_os widget_git uncloned_fs) ''/p/src/widget.git/build/libwidget.so'' = None"
    by code_simp
  have present: "isSourceAvailable widget_git_os
      (GitPluginSource ''https://github.com/foo/widget.git'' ''main'' ''/p/src/widget.git'') widget_fs
      = Returns True"
    by code_simp
  have "fst (buildPlugin sim_config widget_git_os ''/p/src/widget.git'' ''widget'' widget_fs) = Returns (ok ())"
    by code_simp
  then have b: "buildPlugin sim_config widget_git_os ''/p/src/widget.git'' ''widget'' widget_fs
      = (Returns (ok ()), ?w1)"
    by (rule pair_fst_snd)
  have m: "getPluginManifest widget_git_os ''/p/src/widget.git'' ''widget'' ?w1 = Returns (ok widget_manifest)"
    by code_simp
  have out: "path_append ''/p/src/widget.git'' (m_pBinaryOutputPath widget_manifest)
      = ''/p/src/widget.git/build/libwidget.so''"
    by code_simp
  have tgt: "path_append (getPluginBinariesPath sim_config) (path_filename (m_pBinaryOutputPath widget_manifest))
      = ''/p/bin/libwidget.so''"
    by code_simp
  have built: "fs_exists widget_git_os ''/p/src/widget.git/build/libwidget.so'' ?w1 = Returns True"
    by code_simp
  have stale: "fs_exists widget_git_os ''/p/bin/libwidget.so'' ?w1 = Returns True"
    by code_simp
  have old: "?w1 ''/p/bin/libwidget.so'' = Some (File ''OLD'')" by code_simp
  have new: "?w1 ''/p/src/widget.git/build/libwidget.so'' = Some (File ''ELF'')" by code_simp
  have rm: "fs_remove widget_git_os ''/p/bin/libwidget.so'' ?w1 = Returns (?w1(''/p/bin/libwidget.so'' := None))"
    using old unfolding widget_git_os_def by (rule sim_remove_file)
  have cp: "fs_copy widget_git_os ''/p/src/widget.git/build/libwidget.so'' ''/p/bin/libwidget.so''
       (?w1(''/p/bin/libwidget.so'' := None))
     = Returns ((?w1(''/p/bin/libwidget.so'' := None))(''/p/bin/libwidget.so'' \<mapsto> File ''ELF''))"
  proof -
    have a: "(?w1(''/p/bin/libwidget.so'' := None)) ''/p/src/widget.git/build/libwidget.so''
        = Some (File ''ELF'')"
      using new by simp
    have b: "(?w1(''/p/bin/libwidget.so'' := None)) ''/p/bin/libwidget.so'' = None" by simp
    from a b show ?thesis unfolding widget_git_os_def by (rule sim_copy_file)
  qed
  note p1 = main [of widget_git_os "''https://github.com/foo/widget.git''" "''main''" "''/p/src/widget.git''"
              widget_fs sim_config "''widget''", THEN conjunct2, THEN mp, OF present]
  note p2 = p1 [THEN conjunct2, THEN spec, of ?w1, THEN mp, OF b]
  note p3 = p2 [THEN conjunct2, THEN spec, of widget_manifest, THEN mp, OF m, unfolded out tgt]
  note p4 = p3 [THEN conjunct2, THEN mp, OF built, THEN conjunct2, THEN mp, OF stale]
  note p5 = p4 [THEN spec, THEN spec, THEN mp, OF rm, THEN mp, OF cp]
  have 4: "install sim_config widget_git_os widget_git ''widget'' widget_fs
     = (Returns (ok ()), (?w1(''/p/bin/libwidget.so'' := None))(''/p/bin/libwidget.so'' \<mapsto> File ''ELF''))"
    unfolding widget_git_def by (rule p5)
  from 1 2 3 4 show ?thesis by blast
qed

text \<open>
  C1, the claim as it stands: a successful install publishes the artifact under the
  canonical name, the requirement's name followed by \<open>.so\<close>, whatever the declared
  output filename. For the requirement \<open>{local = "/w/widget"}\<close>, of name \<open>widget\<close> and
  binary path \<open>/p/bin/widget.so\<close>, whose manifest declares \<open>build/libwidget.so\<close>, the
  install succeeds, the artifact is at \<open>/p/bin/libwidget.so\<close> and nothing is at
  \<open>/p/bin/widget.so\<close>; the same for the Git source.
\<close>

theorem publish_keeps_declared_filename:
  "PluginRequirement_new sim_config [(''local'', TString ''/w/widget'')] =
     Returns \<lparr>m_sReqName = ''widget'', m_pSource = widget_local, m_pBinaryPath = ''/p/bin/widget.so''\<rparr>
   \<and> fst (install sim_config widget_local_os widget_local ''widget'' widget_fs) = Returns (ok ())
   \<and> snd (install sim_config widget_local_os widget_local ''widget'' widget_fs) ''/p/bin/libwidget.so''
       = Some (File ''ELF'')
   \<and> snd (install sim_config widget_local_os widget_local ''widget'' widget_fs) ''/p/bin/widget.so'' = None
   \<and> fst (install sim_config widget_git_os widget_git ''widget'' widget_fs) = Returns (ok ())
   \<and> snd (install sim_config widget_git_os widget_git ''widget'' widget_fs) ''/p/bin/libwidget.so''
       = Some (File ''ELF'')
   \<and> snd (install sim_config widget_git_os widget_git ''widget'' widget_fs) ''/p/bin/widget.so'' = None"
  by code_simp

text \<open>
  C1 (amended). For every successful install, Git or Local, that reaches the publish
  step (the source is available), the build succeeded, the manifest loaded after it
  declares an output that exists under the source path, and the last step copies that
  artifact into the plugin binaries directory under its own filename, the last
  component of the declared output path, after removing a file of that name there; no
  renaming to the requirement's name takes place.
\<close>

theorem artifact_published_under_own_filename:
  assumes "install c os src name w = (Returns (ok ()), w')"
    and "isSourceAvailable os src w = Returns True"
  shows "\<exists>m w1 w2.
      build c os src name w = (Returns (ok ()), w1)
      \<and> getPluginManifest os (m_pSourcePath src) name w1 = Returns (ok m)
      \<and> fs_exists os (path_append (m_pSourcePath src) (m_pBinaryOutputPath m)) w1 = Returns True
      \<and> (fs_exists os (path_append (getPluginBinariesPath c) (path_filename (m_pBinaryOutputPath m))) w1
            = Returns False \<and> w2 = w1
         \<or> fs_exists os (path_append (getPluginBinariesPath c) (path_filename (m_pBinaryOutputPath m))) w1
            = Returns True
           \<and> fs_remove os (path_append (getPluginBinariesPath c) (path_filename (m_pBinaryOutputPath m))) w1
            = Returns w2)
      \<and> fs_copy os (path_append (m_pSourcePath src) (m_pBinaryOutputPath m))
           (path_append (getPluginBinariesPath c) (path_filename (m_pBinaryOutputPath m))) w2
          = Returns w'"
proof -
  from assms have "build_and_publish c os src name w = (Returns (ok ()), w')"
    by (cases src) (simp_all add: bind_act_reading)
  then show ?thesis by (rule build_and_publish_ok)
qed

theorem artifact_published_under_own_filename_witness:
  "\<exists>m w1 w2.
      build sim_config widget_local_os widget_local ''widget'' widget_fs = (Returns (ok ()), w1)
      \<and> getPluginManifest widget_local_os (m_pSourcePath widget_local) ''widget'' w1 = Returns (ok m)
      \<and> fs_exists widget_local_os (path_append (m_pSourcePath widget_local) (m_pBinaryOutputPath m)) w1
          = Returns True
      \<and> (fs_exists widget_local_os
            (path_append (getPluginBinariesPath sim_config) (path_filename (m_pBinaryOutputPath m))) w1
            = Returns False \<and> w2 = w1
         \<or> fs_exists widget_local_os
            (path_append (getPluginBinariesPath sim_config) (path_filename (m_pBinaryOutputPath m))) w1
            = Returns True
           \<and> fs_remove widget_local_os
            (path_append (getPluginBinariesPath sim_config) (path_filename (m_pBinaryOutputPath m))) w1
            = Returns w2)
      \<and> fs_copy widget_local_os (path_append (m_pSourcePath widget_local) (m_pBinaryOutputPath m))
           (path_append (getPluginBinariesPath sim_config) (path_filename (m_pBinaryOutputPath m))) w2
          = Returns (snd (install sim_config widget_local_os widget_local ''widget'' widget_fs))"
proof -
  have "fst (install sim_config widget_local_os widget_local ''widget'' widget_fs) = Returns (ok ())"
    by code_simp
  then have i: "install sim_config widget_local_os widget_local ''widget'' widget_fs =
      (Returns (ok ()), snd (install sim_config widget_local_os widget_local ''widget'' widget_fs))"
    by (rule pair_fst_snd)
  have a: "isSourceAvailable widget_local_os widget_local widget_fs = Returns True"
    by code_simp
  from artifact_published_under_own_filename [OF i a] show ?thesis .
qed

end
